theory Spec2Isabelle
  imports Main "HOL-Library.Sublist"
begin

section \<open>Python values and library functions used by the log scraper\<close>

text \<open>
  A Python \<open>str\<close> is modelled as a HOL \<open>string\<close>: one \<open>char\<close> per character, with the
  character codes 0..255. The regular expressions of the source use explicit ASCII
  ranges only, so their character classes are decided by the character code.
\<close>

subsection \<open>Exceptions\<close>

text \<open>
  The source defines no exception class of its own: every failure is an exception of the
  Python runtime or standard library that nothing in the source catches. A
  \<open>ValueError\<close> carries what its message says:
  \<^item> \<open>Invalid_isoformat s\<close>: "Invalid isoformat string: 's'" (names the string);
  \<^item> \<open>Month_range\<close>: "month must be in 1..12";
  \<^item> \<open>Day_range\<close>: "day is out of range for month";
  \<^item> \<open>Hour_range\<close>, \<open>Minute_range\<close>, \<open>Second_range\<close>, \<open>Year_range\<close>: likewise;
  \<^item> \<open>Unpack_mismatch n\<close>: "not enough values to unpack (expected 2, got n)" for \<open>n < 2\<close>,
    "too many values to unpack (expected 2)" for \<open>n > 2\<close>;
  \<^item> \<open>Invalid_int_literal s\<close>: "invalid literal for int() with base 10: 's'";
  \<^item> \<open>Int_digit_limit n\<close>: "Exceeds the limit (4300 digits) for integer string conversion".
\<close>

datatype value_error =
    Invalid_isoformat string
  | Year_range
  | Month_range
  | Day_range
  | Hour_range
  | Minute_range
  | Second_range
  | Unpack_mismatch nat
  | Invalid_int_literal string
  | Int_digit_limit nat

datatype error =
    IndexError
  | ValueError value_error
  | AttributeError
  | TypeError

subsection \<open>Character classes\<close>

definition code :: "char \<Rightarrow> nat" where
  "code c = of_char c"

definition is_digit :: "char \<Rightarrow> bool" where
  \<comment> \<open>\<open>[0-9]\<close>\<close>
  "is_digit c = (48 \<le> code c \<and> code c \<le> 57)"

definition is_upper :: "char \<Rightarrow> bool" where
  \<comment> \<open>\<open>[A-Z]\<close>\<close>
  "is_upper c = (65 \<le> code c \<and> code c \<le> 90)"

definition is_lower :: "char \<Rightarrow> bool" where
  \<comment> \<open>\<open>[a-z]\<close>\<close>
  "is_lower c = (97 \<le> code c \<and> code c \<le> 122)"

definition in_range :: "char \<Rightarrow> char \<Rightarrow> char \<Rightarrow> bool" where
  \<comment> \<open>\<open>[lo-hi]\<close>\<close>
  "in_range lo hi c = (code lo \<le> code c \<and> code c \<le> code hi)"

definition is_char :: "char \<Rightarrow> char \<Rightarrow> bool" where
  "is_char a c = (c = a)"

definition any_char :: "char \<Rightarrow> bool" where
  \<comment> \<open>\<open>.\<close> without DOTALL: every character but the newline\<close>
  "any_char c = (c \<noteq> CHR 0x0A)"

definition isspace :: "char \<Rightarrow> bool" where
  \<comment> \<open>\<open>str.isspace\<close> on the codes 0..255: TAB, LF, VT, FF, CR, FS, GS, RS, US, space,
      NEL and the no-break space\<close>
  "isspace c = (code c \<in> {9, 10, 11, 12, 13, 28, 29, 30, 31, 32, 133, 160})"

subsection \<open>\<open>str.strip\<close>, \<open>str.replace\<close>, \<open>str.split\<close>\<close>

definition strip_by :: "(char \<Rightarrow> bool) \<Rightarrow> string \<Rightarrow> string" where
  \<comment> \<open>the text without the leading and trailing characters of a class\<close>
  "strip_by ws s = rev (dropWhile ws (rev (dropWhile ws s)))"

definition strip :: "string \<Rightarrow> string" where
  \<comment> \<open>\<open>s.strip()\<close>\<close>
  "strip s = strip_by isspace s"

text \<open>
  \<open>s.replace(old, new)\<close> with no count: every occurrence of \<open>old\<close>, found scanning from the
  left and not overlapping an occurrence already replaced. For the empty \<open>old\<close> Python
  inserts \<open>new\<close> before every character and at the end.
\<close>

function str_replace :: "string \<Rightarrow> string \<Rightarrow> string \<Rightarrow> string" where
  "str_replace old new s =
     (if old = [] then new @ concat (map (\<lambda>c. c # new) s)
      else if prefix old s then new @ str_replace old new (drop (length old) s)
      else (case s of [] \<Rightarrow> [] | c # cs \<Rightarrow> c # str_replace old new cs))"
  by pat_completeness auto
termination
  by (relation "measure (\<lambda>(old, new, s). length s)") (auto simp: prefix_def)

declare str_replace.simps [simp del]

fun split_on :: "char \<Rightarrow> string \<Rightarrow> string list" where
  \<comment> \<open>\<open>s.split(sep)\<close> for a one-character separator: \<open>''''.split('':'') = ['''']\<close>\<close>
  "split_on sep [] = [[]]"
| "split_on sep (c # cs) =
     (if c = sep then [] # split_on sep cs
      else (case split_on sep cs of w # ws \<Rightarrow> (c # w) # ws | [] \<Rightarrow> [[c]]))"

subsection \<open>\<open>int(str)\<close>\<close>

definition digit_val :: "char \<Rightarrow> nat" where
  "digit_val c = code c - 48"

definition nat_of_digits :: "string \<Rightarrow> nat" where
  \<comment> \<open>the decimal value of a string of digits\<close>
  "nat_of_digits ds = foldl (\<lambda>a c. 10 * a + digit_val c) 0 ds"

fun digit_groups :: "string \<Rightarrow> bool" where
  \<comment> \<open>one or more digits, with single underscores allowed between digits only\<close>
  "digit_groups [] = False"
| "digit_groups [c] = is_digit c"
| "digit_groups (c # d # cs) =
     (is_digit c \<and> (if d = CHR ''_'' then digit_groups cs else digit_groups (d # cs)))"

definition int_max_str_digits :: nat where
  \<comment> \<open>the default of \<open>sys.get_int_max_str_digits()\<close>\<close>
  "int_max_str_digits = 4300"

definition int_space :: "char \<Rightarrow> bool" where
  \<comment> \<open>the whitespace \<open>int\<close> skips around the number: TAB, LF, VT, FF, CR, space, NEL and
      the no-break space (not FS, GS, RS, US, which \<open>str.strip\<close> removes)\<close>
  "int_space c = (code c \<in> {9, 10, 11, 12, 13, 32, 133, 160})"

definition int_char :: "char \<Rightarrow> bool" where
  \<comment> \<open>the characters of the number itself: digits and underscores\<close>
  "int_char c = (is_digit c \<or> c = CHR ''_'')"

definition int_negative :: "string \<Rightarrow> bool" where
  \<comment> \<open>a minus sign stands behind the leading whitespace\<close>
  "int_negative s = (let t = dropWhile int_space s in t \<noteq> [] \<and> hd t = CHR ''-'')"

definition int_body :: "string \<Rightarrow> string" where
  \<comment> \<open>the text behind the leading whitespace and an optional sign\<close>
  "int_body s =
     (let t = dropWhile int_space s
      in if t \<noteq> [] \<and> (hd t = CHR ''+'' \<or> hd t = CHR ''-'') then tl t else t)"

definition py_int :: "string \<Rightarrow> error + int" where
  \<comment> \<open>\<open>int(s)\<close>, base 10 (CPython 3.11): leading whitespace and an optional sign are
      skipped; the run of digits and underscores that follows is checked for its shape,
      then for the number of its digits; only then must the rest be whitespace\<close>
  "py_int s =
     (let run = takeWhile int_char (int_body s);
          rest = dropWhile int_space (dropWhile int_char (int_body s));
          ds = filter is_digit run
      in if \<not> digit_groups run then Inl (ValueError (Invalid_int_literal s))
         else if int_max_str_digits < length ds
           then Inl (ValueError (Int_digit_limit (length ds)))
         else if rest \<noteq> [] then Inl (ValueError (Invalid_int_literal s))
         else Inr (if int_negative s then - int (nat_of_digits ds)
                   else int (nat_of_digits ds)))"

subsection \<open>\<open>datetime.fromisoformat\<close>\<close>

record datetime =
  year :: nat
  month :: nat
  day :: nat
  hour :: nat
  minute :: nat
  second :: nat
  microsecond :: nat

definition is_leap :: "nat \<Rightarrow> bool" where
  "is_leap y = (y mod 4 = 0 \<and> (y mod 100 \<noteq> 0 \<or> y mod 400 = 0))"

definition days_in_month :: "nat \<Rightarrow> nat \<Rightarrow> nat" where
  "days_in_month y m =
     (if m = 2 then (if is_leap y then 29 else 28)
      else if m \<in> {4, 6, 9, 11} then 30 else 31)"

fun matches_prefix :: "(char \<Rightarrow> bool) list \<Rightarrow> string \<Rightarrow> bool" where
  \<comment> \<open>the text starts with one character of each class, in order\<close>
  "matches_prefix [] s = True"
| "matches_prefix (p # ps) [] = False"
| "matches_prefix (p # ps) (c # cs) = (p c \<and> matches_prefix ps cs)"

definition isoformat_shape :: "(char \<Rightarrow> bool) list" where
  \<comment> \<open>\<open>YYYY-MM-DD HH:MM:SS\<close>, then one of \<open>. , :\<close> and three digits of the fraction\<close>
  "isoformat_shape =
     [is_digit, is_digit, is_digit, is_digit, is_char CHR ''-'', is_digit, is_digit,
      is_char CHR ''-'', is_digit, is_digit, is_char CHR '' '',
      is_digit, is_digit, is_char CHR '':'', is_digit, is_digit, is_char CHR '':'',
      is_digit, is_digit, (\<lambda>c. c \<in> {CHR ''.'', CHR '','', CHR '':''}),
      is_digit, is_digit, is_digit]"

definition fromisoformat :: "string \<Rightarrow> error + datetime" where
  \<comment> \<open>\<open>datetime.fromisoformat\<close> (CPython 3.11) on the arguments the scraper passes, the
      23-character matches of \<open>TIMESTAMP_REGEX\<close>: the format is checked first, then the
      date fields, then the time fields. Other ISO 8601 forms are not modelled.\<close>
  "fromisoformat s =
     (if \<not> (length s = 23 \<and> matches_prefix isoformat_shape s)
      then Inl (ValueError (Invalid_isoformat s))
      else
        let y = nat_of_digits (take 4 s);
            mo = nat_of_digits (take 2 (drop 5 s));
            d = nat_of_digits (take 2 (drop 8 s));
            h = nat_of_digits (take 2 (drop 11 s));
            mi = nat_of_digits (take 2 (drop 14 s));
            se = nat_of_digits (take 2 (drop 17 s));
            ms = nat_of_digits (take 3 (drop 20 s))
        in if y < 1 \<or> 9999 < y then Inl (ValueError Year_range)
           else if mo < 1 \<or> 12 < mo then Inl (ValueError Month_range)
           else if d < 1 \<or> days_in_month y mo < d then Inl (ValueError Day_range)
           else if 23 < h then Inl (ValueError Hour_range)
           else if 59 < mi then Inl (ValueError Minute_range)
           else if 59 < se then Inl (ValueError Second_range)
           else Inr \<lparr>year = y, month = mo, day = d, hour = h, minute = mi, second = se,
                     microsecond = ms * 1000\<rparr>)"

section \<open>\<open>LogScraper\<close> (src/utils/logger.py)\<close>

subsection \<open>The three regular expressions\<close>

definition TIMESTAMP_REGEX :: "(char \<Rightarrow> bool) list" where
  \<comment> \<open>\<open>2[0-9]{3}-[0-1][0-9]-[0-3][0-9] [0-2][0-9]:[0-5][0-9]:[0-5][0-9].[0-9]{3}\<close>:
      one character class per position, 23 positions\<close>
  "TIMESTAMP_REGEX =
     [is_char CHR ''2'', is_digit, is_digit, is_digit, is_char CHR ''-'',
      in_range CHR ''0'' CHR ''1'', is_digit, is_char CHR ''-'',
      in_range CHR ''0'' CHR ''3'', is_digit, is_char CHR '' '',
      in_range CHR ''0'' CHR ''2'', is_digit, is_char CHR '':'',
      in_range CHR ''0'' CHR ''5'', is_digit, is_char CHR '':'',
      in_range CHR ''0'' CHR ''5'', is_digit, any_char,
      is_digit, is_digit, is_digit]"

fun search_classes :: "(char \<Rightarrow> bool) list \<Rightarrow> string \<Rightarrow> string option" where
  \<comment> \<open>\<open>re.search\<close> for a pattern that is a sequence of character classes: the match at
      the leftmost position where the pattern matches, \<open>None\<close> when there is none\<close>
  "search_classes ps [] = (if matches_prefix ps [] then Some [] else None)"
| "search_classes ps (c # cs) =
     (if matches_prefix ps (c # cs) then Some (take (length ps) (c # cs))
      else search_classes ps cs)"

definition search_timestamp :: "string \<Rightarrow> string option" where
  \<comment> \<open>\<open>search(self.TIMESTAMP_REGEX, log_content)\<close>, giving \<open>.group()\<close>\<close>
  "search_timestamp s = search_classes TIMESTAMP_REGEX s"

fun search_log_level :: "string \<Rightarrow> string option" where
  \<comment> \<open>\<open>search(self.LOG_LEVEL_REGEX, log_content)\<close> with \<open>[A-Z]{4,}\<close>: at the leftmost
      position followed by four capitals, the whole run of capitals (the quantifier is
      greedy)\<close>
  "search_log_level [] = None"
| "search_log_level (c # cs) =
     (let run = takeWhile is_upper (c # cs)
      in if 4 \<le> length run then Some run else search_log_level cs)"

definition filename_char :: "char \<Rightarrow> bool" where
  \<comment> \<open>\<open>[a-zA-Z0-9_.:]\<close>\<close>
  "filename_char c =
     (is_lower c \<or> is_upper c \<or> is_digit c \<or> c = CHR ''_'' \<or> c = CHR ''.'' \<or> c = CHR '':'')"

definition match_filename_line_number :: "string \<Rightarrow> (string \<times> string) option" where
  \<comment> \<open>\<open>match(self.FILENAME_LINE_NUMBER_REGEX, log_content)\<close> with
      \<open>\[([a-zA-Z0-9_.:]+)]\<close>, anchored at the start: the pair of \<open>.group()\<close> and
      \<open>.groups()[0]\<close>. The class excludes \<open>]\<close>, so the greedy run is the only candidate.\<close>
  "match_filename_line_number s =
     (case s of
        [] \<Rightarrow> None
      | c # rest \<Rightarrow>
          (let inner = takeWhile filename_char rest
           in if c = CHR ''['' \<and> inner \<noteq> [] \<and>
                 (case dropWhile filename_char rest of [] \<Rightarrow> False | d # _ \<Rightarrow> d = CHR '']'')
              then Some (CHR ''['' # inner @ '']'', inner)
              else None))"

subsection \<open>\<open>scrape_log\<close>\<close>

record log_entry =
  log_date :: "datetime option"
  log_level :: "string option"
  log_filename :: "string option"
  log_line_number :: int
  content :: string
  traceback :: "string list"

definition remove_match :: "string \<Rightarrow> string \<Rightarrow> string" where
  \<comment> \<open>\<open>log_content.replace(result.group(), "").strip()\<close>\<close>
  "remove_match m log_content = strip (str_replace m [] log_content)"

definition append_traceback :: "log_entry list \<Rightarrow> string \<Rightarrow> error + log_entry list" where
  \<comment> \<open>\<open>parsed_log_entries[-1]["traceback"].append(log_content)\<close>\<close>
  "append_traceback parsed_log_entries log_content =
     (if parsed_log_entries = [] then Inl IndexError
      else Inr (butlast parsed_log_entries @
                [(last parsed_log_entries)
                   \<lparr>traceback := traceback (last parsed_log_entries) @ [log_content]\<rparr>]))"

definition process_line :: "log_entry list \<Rightarrow> string \<Rightarrow> error + log_entry list" where
  \<comment> \<open>one iteration of the loop over \<open>log_lines\<close>\<close>
  "process_line parsed_log_entries line =
     (case search_timestamp line of
        None \<Rightarrow> append_traceback parsed_log_entries line
      | Some ts \<Rightarrow>
          (case fromisoformat ts of
             Inl e \<Rightarrow> Inl e
           | Inr d \<Rightarrow>
               (let c1 = remove_match ts line;
                    lv = search_log_level c1;
                    c2 = (case lv of None \<Rightarrow> c1 | Some l \<Rightarrow> remove_match l c1)
                in case match_filename_line_number c2 of
                     None \<Rightarrow>
                       Inr (parsed_log_entries @
                            [\<lparr>log_date = Some d, log_level = lv, log_filename = None,
                              log_line_number = 0, content = c2, traceback = []\<rparr>])
                   | Some (whole, inner) \<Rightarrow>
                       (case split_on CHR '':'' inner of
                          [fname, lnum] \<Rightarrow>
                            (let c3 = remove_match whole c2
                             in if lnum = []
                                then Inr (parsed_log_entries @
                                          [\<lparr>log_date = Some d, log_level = lv,
                                            log_filename = Some fname, log_line_number = 0,
                                            content = c3, traceback = []\<rparr>])
                                else (case py_int lnum of
                                        Inl e \<Rightarrow> Inl e
                                      | Inr n \<Rightarrow>
                                          Inr (parsed_log_entries @
                                               [\<lparr>log_date = Some d, log_level = lv,
                                                 log_filename = Some fname,
                                                 log_line_number = n, content = c3,
                                                 traceback = []\<rparr>])))
                        | parts \<Rightarrow> Inl (ValueError (Unpack_mismatch (length parts)))))))"

fun scrape_loop :: "log_entry list \<Rightarrow> string list \<Rightarrow> error + log_entry list" where
  \<comment> \<open>the \<open>for\<close> loop: an exception leaves the loop and the function\<close>
  "scrape_loop parsed_log_entries [] = Inr parsed_log_entries"
| "scrape_loop parsed_log_entries (line # log_lines) =
     (case process_line parsed_log_entries line of
        Inl e \<Rightarrow> Inl e
      | Inr entries \<Rightarrow> scrape_loop entries log_lines)"

definition scrape_log :: "string list \<Rightarrow> error + log_entry list" where
  \<comment> \<open>\<open>scrape_log\<close>, as a function of \<open>log_lines\<close>, the lines that
      \<open>log_file.readlines()\<close> returned (each with its newline, if the file has one there).
      The records the method logs do not change what it returns and are left out.\<close>
  "scrape_log log_lines = scrape_loop [] log_lines"

text \<open>
  The working text \<open>log_content\<close> of a line with the timestamp match \<open>ts\<close>, after the
  timestamp step and after the level step: the values the next step of the loop body reads.
\<close>

definition text_after_timestamp :: "string \<Rightarrow> string \<Rightarrow> string" where
  "text_after_timestamp ts line = remove_match ts line"

definition text_after_level :: "string \<Rightarrow> string \<Rightarrow> string" where
  "text_after_level ts line =
     (let c1 = text_after_timestamp ts line
      in case search_log_level c1 of None \<Rightarrow> c1 | Some l \<Rightarrow> remove_match l c1)"

definition text_after_filename :: "string \<Rightarrow> string \<Rightarrow> string" where
  "text_after_filename ts line =
     (let c2 = text_after_level ts line
      in case match_filename_line_number c2 of
           None \<Rightarrow> c2
         | Some (whole, inner) \<Rightarrow> remove_match whole c2)"

definition timestamp_shaped :: "string \<Rightarrow> bool" where
  \<comment> \<open>the texts \<open>TIMESTAMP_REGEX\<close> matches as a whole\<close>
  "timestamp_shaped m = (length m = length TIMESTAMP_REGEX \<and> matches_prefix TIMESTAMP_REGEX m)"



subsection \<open>\<open>delete_log\<close> and the module logger\<close>

text \<open>
  The filesystem maps a path to the lines of the file there. A \<open>LogScraper\<close> instance has
  the attribute \<open>log_file_path\<close> or not (\<open>None\<close>: the attribute is not set).
\<close>

type_synonym filesystem = "string \<rightharpoonup> string list"

record log_scraper =
  log_file_path :: "string option"

definition MAX_LENGTH :: nat where
  "MAX_LENGTH = 10000"

definition format_msg :: "string \<Rightarrow> string" where
  \<comment> \<open>\<open>WhitespaceRemovingFormatter.format\<close>, the part before \<open>super().format\<close>\<close>
  "format_msg msg =
     (let m = strip msg in if MAX_LENGTH < length m then take MAX_LENGTH m @ ''...'' else m)"

definition file_handler_info :: "string \<Rightarrow> (string \<Rightarrow> string) \<Rightarrow> string \<Rightarrow> filesystem \<Rightarrow> filesystem" where
  \<comment> \<open>\<open>logger.info(msg)\<close> through \<open>file_handler\<close>: one formatted record is appended to the
      file \<open>reporting.log\<close> of the temporary directory (\<open>path\<close>); \<open>render\<close> stands for
      \<open>Formatter.format\<close>, which adds the time, the level and the caller. This is the
      effect on \<open>reporting.log\<close> while it stays below \<open>maxBytes\<close>; the lock file that
      \<open>ConcurrentRotatingFileHandler\<close> keeps beside it and the rotation to
      \<open>reporting.log.1\<close> .. \<open>.5\<close> are not modelled.\<close>
  "file_handler_info path render msg fs =
     fs(path \<mapsto> (case fs path of None \<Rightarrow> [] | Some ls \<Rightarrow> ls) @ [render (format_msg msg)])"

definition delete_log ::
  "(string \<Rightarrow> filesystem \<Rightarrow> filesystem) \<Rightarrow> log_scraper \<Rightarrow> filesystem
     \<Rightarrow> (error + unit) \<times> log_scraper \<times> filesystem" where
  \<comment> \<open>\<open>info\<close> is the effect of \<open>logger.info\<close> on the filesystem. \<open>del\<close> of a missing
      attribute raises AttributeError, which \<open>except IOError\<close> does not catch; nothing in
      the \<open>try\<close> block raises IOError.\<close>
  "delete_log info self fs =
     (let fs1 = info ''Calling delete_log'' fs
      in case log_file_path self of
           None \<Rightarrow> (Inl AttributeError, self, fs1)
         | Some p \<Rightarrow> (Inr (), self\<lparr>log_file_path := None\<rparr>, info ''Log deleted.'' fs1))"

section \<open>Tags (src/tags)\<close>

datatype 'd tag_value = Data 'd | Text string

definition function_call :: "error + unit" where
  \<comment> \<open>\<open>log.function_call()\<close> as the two tag modules run it. \<open>from src.utils import logger
      as log\<close> binds \<open>log\<close> to the module \<open>src/utils/logger.py\<close>: \<open>src/utils\<close> has no package
      file that would bind the name to the logger object. The module defines
      \<open>function_call\<close> as a method of \<open>CustomLogger\<close> only, so the attribute lookup raises
      AttributeError.\<close>
  "function_call = Inl AttributeError"

definition get_data_from_tag :: "(error + unit) \<Rightarrow> string \<Rightarrow> 'd \<Rightarrow> error + 'd" where
  \<comment> \<open>\<open>fc\<close> is what \<open>log.function_call()\<close> does: \<open>function_call\<close> in the tree as it is,
      \<open>Inr ()\<close> were \<open>log\<close> the logger object\<close>
  "get_data_from_tag fc tag data = (case fc of Inl e \<Rightarrow> Inl e | Inr _ \<Rightarrow> Inr data)"

fun lazy_body :: "string \<Rightarrow> string option" where
  \<comment> \<open>\<open>(.*?)\]\]\<close>: the shortest run of characters other than the newline that is
      followed by \<open>]]\<close>\<close>
  "lazy_body [] = None"
| "lazy_body (c # cs) =
     (if prefix '']]'' (c # cs) then Some []
      else if c = CHR 0x0A then None
      else map_option (\<lambda>b. c # b) (lazy_body cs))"

fun search_tag :: "string \<Rightarrow> string option" where
  \<comment> \<open>\<open>re.search(tag_pattern, tag)[0]\<close> with \<open>\[\[(.*?)\]\]\<close>: the leftmost match,
      brackets included\<close>
  "search_tag [] = None"
| "search_tag (c # cs) =
     (if prefix ''[['' (c # cs)
      then (case lazy_body (drop 2 (c # cs)) of
              Some b \<Rightarrow> Some (''[['' @ b @ '']]'')
            | None \<Rightarrow> search_tag cs)
      else search_tag cs)"

text \<open>
  \<open>process_tag\<close> calls \<open>log.function_call()\<close> first (\<open>fc\<close>, as above) and calls itself
  inside a \<open>while\<close> loop. The second argument bounds the number of calls and loop
  iterations together; \<open>None\<close> means that the call has not returned within that bound.
  \<open>str.replace\<close> with a replacement that is not a string raises TypeError.
\<close>

fun process_tag :: "(error + unit) \<Rightarrow> nat \<Rightarrow> string \<Rightarrow> 'd \<Rightarrow> (error + 'd tag_value) option"
and tag_loop :: "(error + unit) \<Rightarrow> nat \<Rightarrow> string \<Rightarrow> 'd \<Rightarrow> (error + 'd tag_value) option"
where
  "process_tag fc 0 tag data = None"
| "process_tag fc (Suc n) tag data =
     (case fc of
        Inl e \<Rightarrow> Some (Inl e)
      | Inr _ \<Rightarrow>
          if search_tag tag = None
          then (case get_data_from_tag fc tag data of
                  Inl e \<Rightarrow> Some (Inl e)
                | Inr d \<Rightarrow> Some (Inr (Data d)))
          else tag_loop fc n tag data)"
| "tag_loop fc 0 tag data = None"
| "tag_loop fc (Suc n) tag data =
     (case search_tag tag of
        None \<Rightarrow> Some (Inr (Text tag))
      | Some inner_tag \<Rightarrow>
          (case process_tag fc n inner_tag data of
             None \<Rightarrow> None
           | Some (Inl e) \<Rightarrow> Some (Inl e)
           | Some (Inr (Data _)) \<Rightarrow> Some (Inl TypeError)
           | Some (Inr (Text inner_content)) \<Rightarrow>
               tag_loop fc n (str_replace inner_tag inner_content tag) data))"

section \<open>Properties of the loop body and of the loop\<close>

lemmas char_class_defs =
  is_char_def is_digit_def is_upper_def is_lower_def in_range_def any_char_def isspace_def
  int_space_def int_char_def filename_char_def code_def

lemmas eval_defs =
  char_class_defs search_timestamp_def TIMESTAMP_REGEX_def remove_match_def strip_def
  strip_by_def
  match_filename_line_number_def fromisoformat_def isoformat_shape_def nat_of_digits_def
  digit_val_def days_in_month_def is_leap_def py_int_def int_body_def int_negative_def
  int_max_str_digits_def
  process_line_def append_traceback_def scrape_log_def str_replace.simps

lemma process_line_continuation:
  "search_timestamp l = None \<Longrightarrow> process_line es l = append_traceback es l"
  by (simp add: process_line_def)

lemma process_line_parse_error:
  "search_timestamp l = Some ts \<Longrightarrow> fromisoformat ts = Inl e \<Longrightarrow> process_line es l = Inl e"
  by (simp add: process_line_def)

lemma scrape_loop_append:
  "scrape_loop acc (xs @ ys) =
     (case scrape_loop acc xs of Inl e \<Rightarrow> Inl e | Inr acc' \<Rightarrow> scrape_loop acc' ys)"
  by (induction xs arbitrary: acc) (auto split: sum.splits)

lemma fromisoformat_error: "fromisoformat s = Inl e \<Longrightarrow> \<exists>v. e = ValueError v"
  by (auto simp: fromisoformat_def Let_def split: if_splits)

lemma py_int_error: "py_int s = Inl e \<Longrightarrow> \<exists>v. e = ValueError v"
  by (auto simp: py_int_def Let_def split: if_splits)

lemma length_split_on: "length (split_on sep s) = Suc (count_list s sep)"
  by (induction s) (auto split: list.splits)

lemma split_on_no_sep: "sep \<notin> set s \<Longrightarrow> split_on sep s = [s]"
  by (induction s) auto

lemma split_on_first: "sep \<notin> set f \<Longrightarrow> split_on sep (f @ sep # r) = f # split_on sep r"
  by (induction f) (auto split: list.splits)

lemma process_line_unpack:
  assumes "search_timestamp l = Some ts" and "fromisoformat ts = Inr d"
    and "match_filename_line_number (text_after_level ts l) = Some (whole, inner)"
    and "length (split_on CHR '':'' inner) \<noteq> 2"
  shows "process_line es l = Inl (ValueError (Unpack_mismatch (length (split_on CHR '':'' inner))))"
  using assms
  by (auto simp: process_line_def Let_def text_after_level_def text_after_timestamp_def
      split: list.splits)

lemma process_line_filename:
  assumes "search_timestamp l = Some ts" and "fromisoformat ts = Inr d"
    and "match_filename_line_number (text_after_level ts l) = Some (whole, inner)"
    and "split_on CHR '':'' inner = [f, r]"
  shows "process_line es l =
     (if r = [] then
        Inr (es @ [\<lparr>log_date = Some d, log_level = search_log_level (text_after_timestamp ts l),
                    log_filename = Some f, log_line_number = 0,
                    content = text_after_filename ts l, traceback = []\<rparr>])
      else (case py_int r of
              Inl e \<Rightarrow> Inl e
            | Inr n \<Rightarrow>
                Inr (es @ [\<lparr>log_date = Some d,
                            log_level = search_log_level (text_after_timestamp ts l),
                            log_filename = Some f, log_line_number = n,
                            content = text_after_filename ts l, traceback = []\<rparr>])))"
  using assms
  by (auto simp: process_line_def Let_def text_after_level_def text_after_timestamp_def
      text_after_filename_def split: sum.splits)

lemma process_line_no_filename:
  assumes "search_timestamp l = Some ts" and "fromisoformat ts = Inr d"
    and "match_filename_line_number (text_after_level ts l) = None"
  shows "process_line es l =
        Inr (es @ [\<lparr>log_date = Some d, log_level = search_log_level (text_after_timestamp ts l),
                    log_filename = None, log_line_number = 0,
                    content = text_after_filename ts l, traceback = []\<rparr>])"
  using assms
  by (auto simp: process_line_def Let_def text_after_level_def text_after_timestamp_def
      text_after_filename_def split: sum.splits)

text \<open>
  A line with a timestamp match either raises a ValueError or appends one entry with an
  empty traceback; it never touches the entries already there.
\<close>

lemma process_line_new_entry_cases:
  assumes "search_timestamp l = Some ts"
  shows "(\<exists>v. process_line es l = Inl (ValueError v)) \<or>
         (\<exists>e. process_line es l = Inr (es @ [e]) \<and> traceback e = [] \<and>
              log_level e = search_log_level (text_after_timestamp ts l) \<and>
              content e = text_after_filename ts l)"
proof (cases "fromisoformat ts")
  case (Inl e)
  then show ?thesis
    using assms fromisoformat_error[OF Inl] by (auto simp: process_line_parse_error)
next
  case (Inr d)
  show ?thesis
  proof (cases "match_filename_line_number (text_after_level ts l)")
    case None
    then show ?thesis using process_line_no_filename[OF assms Inr None] by simp
  next
    case (Some p)
    obtain whole inner where p: "p = (whole, inner)" by (cases p)
    show ?thesis
    proof (cases "length (split_on CHR '':'' inner) = 2")
      case False
      then show ?thesis
        using process_line_unpack[OF assms Inr Some[unfolded p]] by simp
    next
      case True
      then obtain f r where fr: "split_on CHR '':'' inner = [f, r]"
        by (auto simp: length_Suc_conv numeral_2_eq_2)
      show ?thesis
        using process_line_filename[OF assms Inr Some[unfolded p] fr, of es] py_int_error[of r]
        by (cases "py_int r") auto
    qed
  qed
qed

lemma scrape_loop_continuations:
  assumes "\<forall>c\<in>set cs. search_timestamp c = None"
  shows "scrape_loop (es @ [e]) cs = Inr (es @ [e\<lparr>traceback := traceback e @ cs\<rparr>])"
  using assms
proof (induction cs arbitrary: e)
  case Nil
  then show ?case by simp
next
  case (Cons c cs)
  have "process_line (es @ [e]) c = Inr (es @ [e\<lparr>traceback := traceback e @ [c]\<rparr>])"
    using Cons.prems by (simp add: process_line_continuation append_traceback_def)
  then show ?case using Cons by simp
qed

lemma set_dropWhile_cases: "c \<in> set s \<Longrightarrow> c \<in> set (dropWhile P s) \<or> P c"
  by (induction s) auto

text \<open>\<open>int\<close> accepts no text with a colon in it.\<close>

lemma py_int_no_colon:
  assumes "py_int r = Inr n"
  shows "CHR '':'' \<notin> set r"
proof
  assume colon: "CHR '':'' \<in> set r"
  define t where "t = dropWhile int_space r"
  have "CHR '':'' \<in> set t"
    using colon set_dropWhile_cases[of "CHR '':''" r int_space]
    unfolding t_def by (simp add: int_space_def code_def)
  then have "CHR '':'' \<in> set (int_body r)"
    unfolding int_body_def Let_def t_def[symmetric] by (cases t) auto
  then have "CHR '':'' \<in> set (dropWhile int_char (int_body r))"
    using set_dropWhile_cases[of "CHR '':''" "int_body r" int_char]
    by (simp add: int_char_def is_digit_def code_def)
  then have "CHR '':'' \<in> set (dropWhile int_space (dropWhile int_char (int_body r)))"
    using set_dropWhile_cases[of "CHR '':''" "dropWhile int_char (int_body r)" int_space]
    by (simp add: int_space_def code_def)
  then have "dropWhile int_space (dropWhile int_char (int_body r)) \<noteq> []"
    by (cases "dropWhile int_space (dropWhile int_char (int_body r))") simp_all
  then show False
    using assms by (simp add: py_int_def Let_def split: if_splits)
qed

text \<open>On a text of decimal digits \<open>int\<close> gives the decimal value, up to the digit limit.\<close>

lemma digit_groups_digits: "s \<noteq> [] \<Longrightarrow> \<forall>c\<in>set s. is_digit c \<Longrightarrow> digit_groups s"
  by (induction s rule: digit_groups.induct) (auto simp: is_digit_def code_def)

lemma py_int_digits:
  assumes "\<forall>c\<in>set r. is_digit c" and "r \<noteq> []" and "length r \<le> int_max_str_digits"
  shows "py_int r = Inr (int (nat_of_digits r))"
proof -
  obtain c cs where r: "r = c # cs" using assms(2) by (cases r) auto
  have c: "is_digit c" using assms(1) r by simp
  have t: "dropWhile int_space r = r"
    using c unfolding r by (simp add: int_space_def is_digit_def)
  have sign: "hd r \<noteq> CHR ''+'' \<and> hd r \<noteq> CHR ''-''"
    using c unfolding r by (auto simp: is_digit_def code_def)
  have body: "int_body r = r" and neg: "\<not> int_negative r"
    using sign by (simp_all add: int_body_def int_negative_def t)
  have run: "takeWhile int_char r = r" and rest: "dropWhile int_char r = []"
    using assms(1) by (auto simp: int_char_def)
  have ds: "filter is_digit r = r" using assms(1) by simp
  show ?thesis
    using assms(3) digit_groups_digits[OF assms(2) assms(1)]
    by (simp add: py_int_def Let_def body neg run rest ds)
qed

lemma split_on_two:
  assumes "CHR '':'' \<notin> set f"
  shows "split_on CHR '':'' (f @ CHR '':'' # r) =
           (if CHR '':'' \<in> set r then f # split_on CHR '':'' r else [f, r])"
  using assms by (simp add: split_on_first split_on_no_sep)

subsection \<open>What \<open>str.replace\<close> removes\<close>

text \<open>
  With a non-empty \<open>old\<close>, the first occurrence is replaced and the replacement goes on in
  the text behind it; a text without an occurrence is returned as it is.
\<close>

lemma str_replace_first_occurrence:
  assumes "old \<noteq> []" and "\<forall>k<length a. \<not> prefix old (drop k (a @ old @ b))"
  shows "str_replace old new (a @ old @ b) = a @ new @ str_replace old new b"
  using assms(2)
proof (induction a)
  case Nil
  then show ?case using assms(1) by (simp add: str_replace.simps[of old new "old @ b"])
next
  case (Cons c a)
  have "\<not> prefix old (c # a @ old @ b)"
    using Cons.prems by (auto dest: spec[of _ 0])
  moreover have "\<forall>k<length a. \<not> prefix old (drop k (a @ old @ b))"
    using Cons.prems by (auto dest: spec[of _ "Suc _"])
  ultimately show ?case
    using Cons.IH assms(1) by (simp add: str_replace.simps[of old new "c # a @ old @ b"])
qed

lemma str_replace_no_occurrence:
  assumes "old \<noteq> []" and "\<forall>k\<le>length s. \<not> prefix old (drop k s)"
  shows "str_replace old new s = s"
  using assms(2)
proof (induction s)
  case Nil
  then show ?case using assms(1) by (simp add: str_replace.simps[of old new "[]"])
next
  case (Cons c s)
  have "\<not> prefix old (c # s)"
    using Cons.prems by (auto dest: spec[of _ 0])
  moreover have "\<forall>k\<le>length s. \<not> prefix old (drop k s)"
    using Cons.prems by (auto dest: spec[of _ "Suc _"])
  ultimately show ?case
    using Cons.IH assms(1) by (simp add: str_replace.simps[of old new "c # s"])
qed

subsection \<open>What \<open>search\<close> finds\<close>

lemma matches_prefix_length: "matches_prefix ps s \<Longrightarrow> length ps \<le> length s"
  by (induction ps s rule: matches_prefix.induct) auto

lemma matches_prefix_take: "matches_prefix ps s \<Longrightarrow> matches_prefix ps (take (length ps) s)"
  by (induction ps s rule: matches_prefix.induct) auto


lemma search_classes_Some:
  "search_classes ps s = Some m \<Longrightarrow>
     \<exists>pre post. s = pre @ m @ post \<and> length m = length ps \<and> matches_prefix ps m"
proof (induction s)
  case Nil
  then show ?case by (cases ps) (auto split: if_splits)
next
  case (Cons c cs)
  show ?case
  proof (cases "matches_prefix ps (c # cs)")
    case True
    then have m: "m = take (length ps) (c # cs)" using Cons.prems by simp
    have "c # cs = [] @ m @ drop (length ps) (c # cs)" unfolding m by simp
    moreover have "length m = length ps"
      unfolding m using matches_prefix_length[OF True] by simp
    moreover have "matches_prefix ps m"
      unfolding m by (rule matches_prefix_take[OF True])
    ultimately show ?thesis by blast
  next
    case False
    then have "search_classes ps cs = Some m" using Cons.prems by simp
    from Cons.IH[OF this] obtain pre post where
      "cs = pre @ m @ post" "length m = length ps" "matches_prefix ps m" by blast
    then have "c # cs = (c # pre) @ m @ post \<and> length m = length ps \<and> matches_prefix ps m"
      by simp
    then show ?thesis by blast
  qed
qed



lemma search_timestamp_shaped:
  "search_timestamp l = Some ts \<Longrightarrow> timestamp_shaped ts"
  using search_classes_Some[of TIMESTAMP_REGEX l ts]
  by (auto simp: search_timestamp_def timestamp_shaped_def)

text \<open>
  A text of the pattern's shape has a year from 2000 to 2999 and minutes and seconds below
  60, so that only the format, the month, the day and the hour can be rejected.
\<close>

lemma timestamp_shaped_fields:
  assumes "timestamp_shaped ts"
  shows "1 \<le> nat_of_digits (take 4 ts) \<and> nat_of_digits (take 4 ts) \<le> 9999 \<and>
         nat_of_digits (take 2 (drop 14 ts)) \<le> 59 \<and>
         nat_of_digits (take 2 (drop 17 ts)) \<le> 59"
proof -
  have len: "length ts = 23" and m: "matches_prefix TIMESTAMP_REGEX ts"
    using assms by (simp_all add: timestamp_shaped_def TIMESTAMP_REGEX_def)
  from len obtain c0 c1 c2 c3 c4 c5 c6 c7 c8 c9 c10 c11 c12 c13 c14 c15 c16 c17 c18 c19 c20
    c21 c22 where ts: "ts = [c0, c1, c2, c3, c4, c5, c6, c7, c8, c9, c10, c11, c12, c13, c14,
      c15, c16, c17, c18, c19, c20, c21, c22]"
    by (auto simp: eval_nat_numeral length_Suc_conv)
  show ?thesis
    using m unfolding ts TIMESTAMP_REGEX_def
    by (simp add: nat_of_digits_def digit_val_def is_digit_def is_char_def in_range_def code_def)
      linarith
qed

lemma fromisoformat_timestamp_errors:
  assumes "timestamp_shaped ts" and "fromisoformat ts = Inl e"
  shows "e \<in> {ValueError (Invalid_isoformat ts), ValueError Month_range,
              ValueError Day_range, ValueError Hour_range}"
  using assms(2) timestamp_shaped_fields[OF assms(1)]
  by (auto simp: fromisoformat_def Let_def split: if_splits)



subsection \<open>Concrete lines\<close>

lemma started_service_entry:
  "scrape_log [''2024-01-15 10:30:00.123 INFO [app.py:42] Started service''] =
     Inr [\<lparr>log_date = Some \<lparr>year = 2024, month = 1, day = 15, hour = 10, minute = 30,
                              second = 0, microsecond = 123000\<rparr>,
           log_level = Some ''INFO'', log_filename = Some ''app.py'', log_line_number = 42,
           content = ''Started service'', traceback = []\<rparr>]"
  by (simp add: eval_defs)

lemma started_service_timestamp:
  "search_timestamp ''2024-01-15 10:30:00.123 INFO [app.py:42] Started service'' =
     Some ''2024-01-15 10:30:00.123''"
  by (simp add: eval_defs)

lemma started_service_newline_entry:
  "scrape_log [''2024-01-15 10:30:00.123 INFO [app.py:42] Started service\<newline>''] =
     Inr [\<lparr>log_date = Some \<lparr>year = 2024, month = 1, day = 15, hour = 10, minute = 30,
                              second = 0, microsecond = 123000\<rparr>,
           log_level = Some ''INFO'', log_filename = Some ''app.py'', log_line_number = 42,
           content = ''Started service'', traceback = []\<rparr>]"
  by (simp add: eval_defs)

lemma started_service_newline_timestamp:
  "search_timestamp ''2024-01-15 10:30:00.123 INFO [app.py:42] Started service\<newline>'' =
     Some ''2024-01-15 10:30:00.123''"
  by (simp add: eval_defs)

lemma traceback_header_no_timestamp:
  "search_timestamp ''Traceback (most recent call last):\<newline>'' = None"
  by (simp add: eval_defs)

lemma value_error_line_no_timestamp:
  "search_timestamp ''ValueError: boom\<newline>'' = None"
  by (simp add: eval_defs)

lemma bare_header_no_timestamp:
  "search_timestamp ''Traceback (most recent call last):'' = None"
  by (simp add: eval_defs)

lemmas text_defs = text_after_timestamp_def text_after_level_def text_after_filename_def

lemma started_service_fromisoformat:
  "fromisoformat ''2024-01-15 10:30:00.123'' =
     Inr \<lparr>year = 2024, month = 1, day = 15, hour = 10, minute = 30, second = 0,
          microsecond = 123000\<rparr>"
  by (simp add: eval_defs)

lemma started_service_level:
  "search_log_level (text_after_timestamp ''2024-01-15 10:30:00.123''
     ''2024-01-15 10:30:00.123 INFO [app.py:42] Started service'') = Some ''INFO''"
  by (simp add: text_defs eval_defs)

lemma started_service_match:
  "match_filename_line_number (text_after_level ''2024-01-15 10:30:00.123''
     ''2024-01-15 10:30:00.123 INFO [app.py:42] Started service'') =
     Some (''[app.py:42]'', ''app.py'' @ CHR '':'' # ''42'')"
  by (simp add: text_defs eval_defs)

lemma started_service_content:
  "text_after_filename ''2024-01-15 10:30:00.123''
     ''2024-01-15 10:30:00.123 INFO [app.py:42] Started service'' = ''Started service''"
  by (simp add: text_defs eval_defs)

lemma py_int_42: "py_int ''42'' = Inr 42"
  by (simp add: eval_defs)

lemma month_13_timestamp:
  "search_timestamp ''2024-13-15 10:30:00.123 INFO [app.py:42] Started service'' =
     Some ''2024-13-15 10:30:00.123''"
  by (simp add: eval_defs)

lemma month_13_fromisoformat:
  "fromisoformat ''2024-13-15 10:30:00.123'' = Inl (ValueError Month_range)"
  by (simp add: eval_defs)

lemma no_colon_timestamp:
  "search_timestamp ''2024-01-15 10:30:00.123 INFO [appfile] Started service'' =
     Some ''2024-01-15 10:30:00.123''"
  by (simp add: eval_defs)

lemma no_colon_match:
  "match_filename_line_number (text_after_level ''2024-01-15 10:30:00.123''
     ''2024-01-15 10:30:00.123 INFO [appfile] Started service'') =
     Some (''[appfile]'', ''appfile'')"
  by (simp add: text_defs eval_defs)

lemma two_colons_timestamp:
  "search_timestamp ''2024-01-15 10:30:00.123 INFO [a:b:c] Started service'' =
     Some ''2024-01-15 10:30:00.123''"
  by (simp add: eval_defs)

lemma two_colons_match:
  "match_filename_line_number (text_after_level ''2024-01-15 10:30:00.123''
     ''2024-01-15 10:30:00.123 INFO [a:b:c] Started service'') =
     Some (''[a:b:c]'', ''a:b:c'')"
  by (simp add: text_defs eval_defs)

lemma empty_number_timestamp:
  "search_timestamp ''2024-01-15 10:30:00.123 INFO [app.py:] Started service'' =
     Some ''2024-01-15 10:30:00.123''"
  by (simp add: eval_defs)

lemma empty_number_level:
  "search_log_level (text_after_timestamp ''2024-01-15 10:30:00.123''
     ''2024-01-15 10:30:00.123 INFO [app.py:] Started service'') = Some ''INFO''"
  by (simp add: text_defs eval_defs)

lemma empty_number_match:
  "match_filename_line_number (text_after_level ''2024-01-15 10:30:00.123''
     ''2024-01-15 10:30:00.123 INFO [app.py:] Started service'') =
     Some (''[app.py:]'', ''app.py'' @ CHR '':'' # [])"
  by (simp add: text_defs eval_defs)

lemma empty_number_content:
  "text_after_filename ''2024-01-15 10:30:00.123''
     ''2024-01-15 10:30:00.123 INFO [app.py:] Started service'' = ''Started service''"
  by (simp add: text_defs eval_defs)



lemma repeated_level_entry:
  "process_line [] ''2024-01-15 10:30:00.123 INFO [app.py:42] INFO again'' =
     Inr [\<lparr>log_date = Some \<lparr>year = 2024, month = 1, day = 15, hour = 10, minute = 30,
                              second = 0, microsecond = 123000\<rparr>,
           log_level = Some ''INFO'', log_filename = Some ''app.py'', log_line_number = 42,
           content = ''again'', traceback = []\<rparr>]"
  by (simp add: eval_defs)

lemma repeated_level_mangled_entry:
  "process_line [] ''2024-01-15 10:30:00.123 INFO [app.py:42] INFORMATION given'' =
     Inr [\<lparr>log_date = Some \<lparr>year = 2024, month = 1, day = 15, hour = 10, minute = 30,
                              second = 0, microsecond = 123000\<rparr>,
           log_level = Some ''INFO'', log_filename = Some ''app.py'', log_line_number = 42,
           content = ''RMATION given'', traceback = []\<rparr>]"
  by (simp add: eval_defs)

lemma repeated_timestamp_entry:
  "process_line []
     ''2024-01-15 10:30:00.123 INFO [app.py:42] retry at 2024-01-15 10:30:00.123 failed'' =
     Inr [\<lparr>log_date = Some \<lparr>year = 2024, month = 1, day = 15, hour = 10, minute = 30,
                              second = 0, microsecond = 123000\<rparr>,
           log_level = Some ''INFO'', log_filename = Some ''app.py'', log_line_number = 42,
           content = ''retry at  failed'', traceback = []\<rparr>]"
  by (simp add: eval_defs)

lemma repeated_bracket_entry:
  "process_line [] ''2024-01-15 10:30:00.123 INFO [app.py:42] see [app.py:42] now'' =
     Inr [\<lparr>log_date = Some \<lparr>year = 2024, month = 1, day = 15, hour = 10, minute = 30,
                              second = 0, microsecond = 123000\<rparr>,
           log_level = Some ''INFO'', log_filename = Some ''app.py'', log_line_number = 42,
           content = ''see  now'', traceback = []\<rparr>]"
  by (simp add: eval_defs)

lemma three_parts_unpack:
  "process_line [] ''2024-01-15 10:30:00.123 INFO [app.py:42:7] Started'' =
     Inl (ValueError (Unpack_mismatch 3))"
  by (simp add: eval_defs)

lemma py_int_remainder_with_colon:
  "py_int ''42:7'' = Inl (ValueError (Invalid_int_literal ''42:7''))"
  by (simp add: eval_defs)


lemma missing_no_marker: "search_tag ''Missing'' = None"
  by simp

lemma report_title_no_marker: "search_tag ''Report_Title'' = None"
  by simp

lemma file_handler_other_path:
  "p \<noteq> path \<Longrightarrow> file_handler_info path render msg fs p = fs p"
  by (simp add: file_handler_info_def)

section \<open>The claims\<close>

text \<open>
  C1. The single line \<open>2024-01-15 10:30:00.123 INFO [app.py:42] Started service\<close> gives
  exactly one entry: the date-time 2024-01-15T10:30:00.123 (123000 microseconds), level
  INFO, file app.py, line 42, content "Started service" and an empty traceback.
\<close>

theorem scrape_log_minimal_line:
  "scrape_log [''2024-01-15 10:30:00.123 INFO [app.py:42] Started service''] =
     Inr [\<lparr>log_date = Some \<lparr>year = 2024, month = 1, day = 15, hour = 10, minute = 30,
                              second = 0, microsecond = 123000\<rparr>,
           log_level = Some ''INFO'', log_filename = Some ''app.py'', log_line_number = 42,
           content = ''Started service'', traceback = []\<rparr>]"
  by (rule started_service_entry)

text \<open>
  C2. The claim asks for a MalformedLogSequence error when the first line has no timestamp
  match. The source indexes the empty list \<open>parsed_log_entries\<close> instead: whatever follows,
  the call ends with the IndexError of \<open>parsed_log_entries[-1]\<close>.
\<close>

theorem continuation_first_IndexError:
  assumes "search_timestamp l = None"
  shows "scrape_log (l # ls) = Inl IndexError"
  using assms by (simp add: scrape_log_def process_line_continuation append_traceback_def)

theorem continuation_first_IndexError_witness:
  "search_timestamp ''Traceback (most recent call last):'' = None \<and>
   scrape_log [''Traceback (most recent call last):''] = Inl IndexError"
  using continuation_first_IndexError[OF bare_header_no_timestamp, of "[]"]
    bare_header_no_timestamp by simp

text \<open>
  C3. Let the lines \<open>pre\<close> be scraped without error, let \<open>n\<close> be a line with a timestamp
  match that starts the entry \<open>e\<close>, and let \<open>conts @ [l]\<close> be lines without a timestamp match
  that follow \<open>n\<close> directly. Then every one of them, \<open>l\<close> included, is appended in order to
  the traceback of \<open>e\<close>, the last entry; the entries before \<open>e\<close> stay as they were and no
  entry is added. The loop goes on with the lines \<open>post\<close> from these entries.
\<close>

theorem continuation_folded_into_last_entry:
  assumes "scrape_log pre = Inr es0"
    and "search_timestamp n = Some ts"
    and "scrape_log (pre @ [n]) = Inr es1"
    and "\<forall>c\<in>set (conts @ [l]). search_timestamp c = None"
  shows "\<exists>e. es1 = es0 @ [e] \<and> traceback e = [] \<and>
             scrape_log (pre @ n # conts @ l # post) =
               scrape_loop (es0 @ [e\<lparr>traceback := conts @ [l]\<rparr>]) post"
proof -
  have step: "process_line es0 n = Inr es1"
    using assms(1,3) by (simp add: scrape_log_def scrape_loop_append split: sum.splits)
  then obtain e where e: "es1 = es0 @ [e]" "traceback e = []"
    using process_line_new_entry_cases[OF assms(2), of es0] by auto
  have conts: "scrape_loop (es0 @ [e]) (conts @ [l]) =
      Inr (es0 @ [e\<lparr>traceback := traceback e @ (conts @ [l])\<rparr>])"
    by (rule scrape_loop_continuations[OF assms(4)])
  have "scrape_log (pre @ n # conts @ l # post) = scrape_loop (es0 @ [e]) ((conts @ [l]) @ post)"
    using assms(1) step e(1) by (simp add: scrape_log_def scrape_loop_append)
  also have "\<dots> = scrape_loop (es0 @ [e\<lparr>traceback := conts @ [l]\<rparr>]) post"
    unfolding scrape_loop_append[of _ "conts @ [l]" post] conts using e(2) by simp
  finally show ?thesis using e by auto
qed

theorem continuation_folded_into_last_entry_witness:
  "scrape_log [] = Inr [] \<and>
   search_timestamp ''2024-01-15 10:30:00.123 INFO [app.py:42] Started service\<newline>'' =
     Some ''2024-01-15 10:30:00.123'' \<and>
   search_timestamp ''Traceback (most recent call last):\<newline>'' = None \<and>
   search_timestamp ''ValueError: boom\<newline>'' = None \<and>
   scrape_log [''2024-01-15 10:30:00.123 INFO [app.py:42] Started service\<newline>'',
               ''Traceback (most recent call last):\<newline>'', ''ValueError: boom\<newline>''] =
     Inr [\<lparr>log_date = Some \<lparr>year = 2024, month = 1, day = 15, hour = 10, minute = 30,
                              second = 0, microsecond = 123000\<rparr>,
           log_level = Some ''INFO'', log_filename = Some ''app.py'', log_line_number = 42,
           content = ''Started service'',
           traceback = [''Traceback (most recent call last):\<newline>'',
                        ''ValueError: boom\<newline>'']\<rparr>]"
proof -
  have h1: "scrape_log [] = Inr []"
    by (simp add: scrape_log_def)
  have h3: "scrape_log ([] @ [''2024-01-15 10:30:00.123 INFO [app.py:42] Started service\<newline>'']) =
     Inr [\<lparr>log_date = Some \<lparr>year = 2024, month = 1, day = 15, hour = 10, minute = 30,
                              second = 0, microsecond = 123000\<rparr>,
           log_level = Some ''INFO'', log_filename = Some ''app.py'', log_line_number = 42,
           content = ''Started service'', traceback = []\<rparr>]"
    using started_service_newline_entry by simp
  have h4: "\<forall>c\<in>set ([''Traceback (most recent call last):\<newline>''] @ [''ValueError: boom\<newline>'']).
      search_timestamp c = None"
    using traceback_header_no_timestamp value_error_line_no_timestamp by simp
  show ?thesis
    using continuation_folded_into_last_entry[OF h1 started_service_newline_timestamp h3 h4,
        of "[]"] h1
      started_service_newline_timestamp traceback_header_no_timestamp
      value_error_line_no_timestamp
    by auto
qed

text \<open>
  C4 (amended). The source parses the leftmost match of the timestamp pattern only, and it
  has no error class of its own. When the lines before have been scraped and the leftmost
  match of a line does not parse, the call ends with the ValueError that
  \<open>datetime.fromisoformat\<close> raised, whatever follows, and returns no entry. The error
  names the matched text when its format is rejected; otherwise it says that the month,
  the day or the hour is out of range.
\<close>

theorem unparseable_timestamp_ValueError:
  assumes "scrape_log pre = Inr es"
    and "search_timestamp l = Some ts"
    and "fromisoformat ts = Inl e"
  shows "scrape_log (pre @ l # post) = Inl e \<and>
         e \<in> {ValueError (Invalid_isoformat ts), ValueError Month_range,
              ValueError Day_range, ValueError Hour_range}"
  using assms fromisoformat_timestamp_errors[OF search_timestamp_shaped[OF assms(2)] assms(3)]
  by (simp add: scrape_log_def scrape_loop_append process_line_parse_error)

theorem unparseable_timestamp_ValueError_witness:
  "scrape_log [''2024-01-15 10:30:00.123 INFO [app.py:42] Started service''] =
     Inr [\<lparr>log_date = Some \<lparr>year = 2024, month = 1, day = 15, hour = 10, minute = 30,
                              second = 0, microsecond = 123000\<rparr>,
           log_level = Some ''INFO'', log_filename = Some ''app.py'', log_line_number = 42,
           content = ''Started service'', traceback = []\<rparr>] \<and>
   search_timestamp ''2024-13-15 10:30:00.123 INFO [app.py:42] Started service'' =
     Some ''2024-13-15 10:30:00.123'' \<and>
   fromisoformat ''2024-13-15 10:30:00.123'' = Inl (ValueError Month_range) \<and>
   scrape_log [''2024-01-15 10:30:00.123 INFO [app.py:42] Started service'',
               ''2024-13-15 10:30:00.123 INFO [app.py:42] Started service'',
               ''Traceback (most recent call last):''] = Inl (ValueError Month_range)"
  using unparseable_timestamp_ValueError[OF started_service_entry month_13_timestamp
      month_13_fromisoformat, of "[''Traceback (most recent call last):'']"]
    started_service_entry month_13_timestamp month_13_fromisoformat
  by simp

text \<open>
  C4 as stated fails twice. With month 13 the error is the ValueError "month must be in
  1..12", which does not name the text; and a line whose leftmost match parses is scraped
  without error although a later text of the pattern's shape in it does not parse.
\<close>

theorem month_13_counterexample:
  "scrape_log [''2024-13-15 10:30:00.123 INFO [app.py:42] Started service''] =
     Inl (ValueError Month_range) \<and>
   fromisoformat ''2024-13-15 10:30:00.123'' = Inl (ValueError Month_range) \<and>
   scrape_log [''2024-01-15 10:30:00.123 INFO retry of 2024-13-15 10:30:00.123''] =
     Inr [\<lparr>log_date = Some \<lparr>year = 2024, month = 1, day = 15, hour = 10, minute = 30,
                              second = 0, microsecond = 123000\<rparr>,
           log_level = Some ''INFO'', log_filename = None, log_line_number = 0,
           content = ''retry of 2024-13-15 10:30:00.123'', traceback = []\<rparr>]"
  by (simp add: eval_defs)

text \<open>
  C5. The claim asks each step to remove the leftmost match only, so that a later
  occurrence of the same text stays in the content. The source removes the match with
  \<open>log_content.replace(match.group(), "")\<close>, which deletes every occurrence of the
  matched text, in each of the three steps: a message that repeats the level token loses
  it (\<open>INFO again\<close> gives \<open>again\<close>, \<open>INFORMATION given\<close> gives \<open>RMATION given\<close>), and so
  does a message that repeats the timestamp or the bracketed token.
\<close>

theorem later_occurrences_deleted:
  "scrape_log [''2024-01-15 10:30:00.123 INFO [app.py:42] INFO again''] =
     Inr [\<lparr>log_date = Some \<lparr>year = 2024, month = 1, day = 15, hour = 10, minute = 30,
                              second = 0, microsecond = 123000\<rparr>,
           log_level = Some ''INFO'', log_filename = Some ''app.py'', log_line_number = 42,
           content = ''again'', traceback = []\<rparr>] \<and>
   scrape_log [''2024-01-15 10:30:00.123 INFO [app.py:42] INFORMATION given''] =
     Inr [\<lparr>log_date = Some \<lparr>year = 2024, month = 1, day = 15, hour = 10, minute = 30,
                              second = 0, microsecond = 123000\<rparr>,
           log_level = Some ''INFO'', log_filename = Some ''app.py'', log_line_number = 42,
           content = ''RMATION given'', traceback = []\<rparr>] \<and>
   scrape_log
     [''2024-01-15 10:30:00.123 INFO [app.py:42] retry at 2024-01-15 10:30:00.123 failed''] =
     Inr [\<lparr>log_date = Some \<lparr>year = 2024, month = 1, day = 15, hour = 10, minute = 30,
                              second = 0, microsecond = 123000\<rparr>,
           log_level = Some ''INFO'', log_filename = Some ''app.py'', log_line_number = 42,
           content = ''retry at  failed'', traceback = []\<rparr>] \<and>
   scrape_log [''2024-01-15 10:30:00.123 INFO [app.py:42] see [app.py:42] now''] =
     Inr [\<lparr>log_date = Some \<lparr>year = 2024, month = 1, day = 15, hour = 10, minute = 30,
                              second = 0, microsecond = 123000\<rparr>,
           log_level = Some ''INFO'', log_filename = Some ''app.py'', log_line_number = 42,
           content = ''see  now'', traceback = []\<rparr>]"
  using repeated_level_entry repeated_level_mangled_entry repeated_timestamp_entry
    repeated_bracket_entry
  by (simp add: scrape_log_def)

text \<open>
  C6 (amended). The source splits the inner text of the bracketed token on every colon and
  unpacks the parts into two names. Let the text after the level step start with a
  bracketed token whose inner text is \<open>f\<close>, a colon and \<open>r\<close>, with no colon in \<open>f\<close> and none
  in \<open>r\<close>. Then \<open>log_filename\<close> is \<open>f\<close>, and \<open>log_line_number\<close> is 0 when \<open>r\<close> is empty and
  \<open>int(r)\<close> otherwise, the line raising the ValueError of \<open>int\<close> when \<open>r\<close> is no integer
  literal. When \<open>r\<close> consists of at most 4300 decimal digits, \<open>log_line_number\<close> is its
  decimal value.
\<close>

theorem filename_split_single_colon:
  assumes "search_timestamp l = Some ts"
    and "fromisoformat ts = Inr d"
    and "match_filename_line_number (text_after_level ts l) = Some (whole, f @ CHR '':'' # r)"
    and "CHR '':'' \<notin> set f"
    and "CHR '':'' \<notin> set r"
  shows "process_line es l =
     (if r = [] then
        Inr (es @ [\<lparr>log_date = Some d, log_level = search_log_level (text_after_timestamp ts l),
                    log_filename = Some f, log_line_number = 0,
                    content = text_after_filename ts l, traceback = []\<rparr>])
      else (case py_int r of
              Inl e \<Rightarrow> Inl e
            | Inr n \<Rightarrow>
                Inr (es @ [\<lparr>log_date = Some d,
                            log_level = search_log_level (text_after_timestamp ts l),
                            log_filename = Some f, log_line_number = n,
                            content = text_after_filename ts l, traceback = []\<rparr>]))) \<and>
     ((\<forall>c\<in>set r. is_digit c) \<and> length r \<le> int_max_str_digits \<longrightarrow>
      process_line es l =
        Inr (es @ [\<lparr>log_date = Some d, log_level = search_log_level (text_after_timestamp ts l),
                    log_filename = Some f, log_line_number = int (nat_of_digits r),
                    content = text_after_filename ts l, traceback = []\<rparr>]))"
proof -
  have parts: "split_on CHR '':'' (f @ CHR '':'' # r) = [f, r]"
    using assms(4,5) by (simp add: split_on_two)
  note general = process_line_filename[OF assms(1-3) parts, of es]
  have "process_line es l =
        Inr (es @ [\<lparr>log_date = Some d, log_level = search_log_level (text_after_timestamp ts l),
                    log_filename = Some f, log_line_number = int (nat_of_digits r),
                    content = text_after_filename ts l, traceback = []\<rparr>])"
    if digits: "\<forall>c\<in>set r. is_digit c" and len: "length r \<le> int_max_str_digits"
  proof (cases "r = []")
    case True
    then show ?thesis using general by (simp add: nat_of_digits_def)
  next
    case False
    then show ?thesis using general py_int_digits[OF digits False len] by simp
  qed
  then show ?thesis using general by blast
qed

theorem filename_split_single_colon_witness:
  "search_timestamp ''2024-01-15 10:30:00.123 INFO [app.py:42] Started service'' =
     Some ''2024-01-15 10:30:00.123'' \<and>
   match_filename_line_number (text_after_level ''2024-01-15 10:30:00.123''
     ''2024-01-15 10:30:00.123 INFO [app.py:42] Started service'') =
     Some (''[app.py:42]'', ''app.py'' @ CHR '':'' # ''42'') \<and>
   CHR '':'' \<notin> set ''app.py'' \<and> CHR '':'' \<notin> set ''42'' \<and>
   is_digit CHR ''4'' \<and> is_digit CHR ''2'' \<and> length ''42'' \<le> int_max_str_digits \<and>
   nat_of_digits ''42'' = 42 \<and>
   process_line [] ''2024-01-15 10:30:00.123 INFO [app.py:42] Started service'' =
     Inr [\<lparr>log_date = Some \<lparr>year = 2024, month = 1, day = 15, hour = 10, minute = 30,
                              second = 0, microsecond = 123000\<rparr>,
           log_level = Some ''INFO'', log_filename = Some ''app.py'', log_line_number = 42,
           content = ''Started service'', traceback = []\<rparr>] \<and>
   process_line [] ''2024-01-15 10:30:00.123 INFO [app.py:] Started service'' =
     Inr [\<lparr>log_date = Some \<lparr>year = 2024, month = 1, day = 15, hour = 10, minute = 30,
                              second = 0, microsecond = 123000\<rparr>,
           log_level = Some ''INFO'', log_filename = Some ''app.py'', log_line_number = 0,
           content = ''Started service'', traceback = []\<rparr>]"
proof -
  have nc: "CHR '':'' \<notin> set ''app.py''" by simp
  have nr: "CHR '':'' \<notin> set ''42''" by simp
  have ne: "CHR '':'' \<notin> set []" by simp
  have dg: "\<forall>c\<in>set ''42''. is_digit c" by (simp add: is_digit_def code_def)
  have d4: "is_digit CHR ''4''" and d2: "is_digit CHR ''2''"
    by (simp_all add: is_digit_def code_def)
  have de: "\<forall>c\<in>set []. is_digit c" by simp
  have ln: "length ''42'' \<le> int_max_str_digits" by (simp add: int_max_str_digits_def)
  have le: "length ([] :: string) \<le> int_max_str_digits" by simp
  have v: "nat_of_digits ''42'' = 42" by (simp add: nat_of_digits_def digit_val_def code_def)
  have ve: "nat_of_digits [] = 0" by (simp add: nat_of_digits_def)
  have a: "process_line [] ''2024-01-15 10:30:00.123 INFO [app.py:42] Started service'' =
     Inr [\<lparr>log_date = Some \<lparr>year = 2024, month = 1, day = 15, hour = 10, minute = 30,
                              second = 0, microsecond = 123000\<rparr>,
           log_level = Some ''INFO'', log_filename = Some ''app.py'', log_line_number = 42,
           content = ''Started service'', traceback = []\<rparr>]"
    using filename_split_single_colon[OF started_service_timestamp
        started_service_fromisoformat started_service_match nc nr, of "[]", THEN conjunct2]
      dg ln
    by (simp add: started_service_level started_service_content v)
  have b: "process_line [] ''2024-01-15 10:30:00.123 INFO [app.py:] Started service'' =
     Inr [\<lparr>log_date = Some \<lparr>year = 2024, month = 1, day = 15, hour = 10, minute = 30,
                              second = 0, microsecond = 123000\<rparr>,
           log_level = Some ''INFO'', log_filename = Some ''app.py'', log_line_number = 0,
           content = ''Started service'', traceback = []\<rparr>]"
    using filename_split_single_colon[OF empty_number_timestamp
        started_service_fromisoformat empty_number_match nc ne, of "[]", THEN conjunct2]
      de le
    by (simp add: empty_number_level empty_number_content ve)
  show ?thesis
    using a b nc nr d4 d2 ln v started_service_timestamp started_service_match by simp
qed

text \<open>
  C6 as stated fails on a token with a second colon: \<open>app.py:42:7\<close> is split into three
  parts and the unpacking into two names raises ValueError ("too many values to unpack");
  the text after the first colon, \<open>42:7\<close>, is never given to \<open>int\<close>, whose own error is
  another one.
\<close>

theorem second_colon_counterexample:
  "split_on CHR '':'' ''app.py:42:7'' = [''app.py'', ''42'', ''7''] \<and>
   scrape_log [''2024-01-15 10:30:00.123 INFO [app.py:42:7] Started''] =
     Inl (ValueError (Unpack_mismatch 3)) \<and>
   py_int ''42:7'' = Inl (ValueError (Invalid_int_literal ''42:7''))"
  using three_parts_unpack py_int_remainder_with_colon by (simp add: scrape_log_def)




text \<open>
  C8. The claim asks for a lookup of the tag in the mapping and for an error of its own
  when the tag is missing. The source does neither. For a tag without a marker,
  \<open>process_tag\<close> gives what \<open>log.function_call()\<close> raises, and otherwise
  \<open>get_data_from_tag(tag, data)\<close>, which is \<open>data\<close> itself, whatever the tag. In the tree as
  it is \<open>log.function_call()\<close> raises AttributeError, so that every call ends with it,
  for a tag of the mapping as for a missing one.
\<close>

theorem process_tag_no_lookup:
  assumes "search_tag tag = None"
  shows "process_tag fc (Suc n) tag data =
           Some (case fc of Inl e \<Rightarrow> Inl e | Inr u \<Rightarrow> Inr (Data data)) \<and>
         process_tag function_call (Suc n) tag data = Some (Inl AttributeError)"
  using assms by (simp add: get_data_from_tag_def function_call_def split: sum.splits)

theorem process_tag_no_lookup_witness:
  "search_tag ''Report_Title'' = None \<and>
   process_tag function_call (Suc 0) ''Report_Title''
     [[(''Report_Title'', ''Quarterly report'')]] = Some (Inl AttributeError) \<and>
   process_tag (Inr ()) (Suc 0) ''Report_Title''
     [[(''Report_Title'', ''Quarterly report'')]] =
     Some (Inr (Data [[(''Report_Title'', ''Quarterly report'')]])) \<and>
   search_tag ''Missing'' = None \<and>
   process_tag function_call (Suc 0) ''Missing''
     [[(''Report_Title'', ''Quarterly report'')]] = Some (Inl AttributeError) \<and>
   process_tag (Inr ()) (Suc 0) ''Missing''
     [[(''Report_Title'', ''Quarterly report'')]] =
     Some (Inr (Data [[(''Report_Title'', ''Quarterly report'')]]))"
  using process_tag_no_lookup[OF report_title_no_marker, of "Inr ()" 0
      "[[(''Report_Title'', ''Quarterly report'')]]"]
    process_tag_no_lookup[OF missing_no_marker, of "Inr ()" 0
      "[[(''Report_Title'', ''Quarterly report'')]]"]
    report_title_no_marker missing_no_marker
  by simp

text \<open>
  C9. Let the lines before be scraped, and let the text after the timestamp and level
  steps of a line start with a bracketed token that the file/line pattern matches. When
  the number of colons in the inner text is not one, the call ends with the ValueError of
  unpacking the parts of the split, one more than there are colons, into two names, and
  returns no entry.
\<close>

theorem colon_count_unpack_ValueError:
  assumes "scrape_log pre = Inr es"
    and "search_timestamp l = Some ts"
    and "fromisoformat ts = Inr d"
    and "match_filename_line_number (text_after_level ts l) = Some (whole, inner)"
    and "count_list inner CHR '':'' \<noteq> 1"
  shows "scrape_log (pre @ l # post) =
           Inl (ValueError (Unpack_mismatch (Suc (count_list inner CHR '':''))))"
proof -
  have "length (split_on CHR '':'' inner) \<noteq> 2"
    using assms(5) by (simp add: length_split_on)
  from process_line_unpack[OF assms(2-4) this, of es] show ?thesis
    using assms(1) by (simp add: scrape_log_def scrape_loop_append length_split_on)
qed

theorem colon_count_unpack_ValueError_witness:
  "scrape_log [] = Inr [] \<and>
   match_filename_line_number (text_after_level ''2024-01-15 10:30:00.123''
     ''2024-01-15 10:30:00.123 INFO [appfile] Started service'') =
     Some (''[appfile]'', ''appfile'') \<and>
   count_list ''appfile'' CHR '':'' \<noteq> 1 \<and>
   scrape_log [''2024-01-15 10:30:00.123 INFO [appfile] Started service''] =
     Inl (ValueError (Unpack_mismatch 1)) \<and>
   match_filename_line_number (text_after_level ''2024-01-15 10:30:00.123''
     ''2024-01-15 10:30:00.123 INFO [a:b:c] Started service'') =
     Some (''[a:b:c]'', ''a:b:c'') \<and>
   count_list ''a:b:c'' CHR '':'' \<noteq> 1 \<and>
   scrape_log [''2024-01-15 10:30:00.123 INFO [a:b:c] Started service'',
               ''2024-01-15 10:30:00.123 INFO [app.py:42] Started service''] =
     Inl (ValueError (Unpack_mismatch 3))"
proof -
  have h1: "scrape_log [] = Inr []"
    by (simp add: scrape_log_def)
  have c0: "count_list ''appfile'' CHR '':'' \<noteq> 1" by simp
  have c2: "count_list ''a:b:c'' CHR '':'' \<noteq> 1" by simp
  have a: "scrape_log [''2024-01-15 10:30:00.123 INFO [appfile] Started service''] =
     Inl (ValueError (Unpack_mismatch 1))"
    using colon_count_unpack_ValueError[OF h1 no_colon_timestamp
        started_service_fromisoformat no_colon_match c0, of "[]"]
    by simp
  have b: "scrape_log [''2024-01-15 10:30:00.123 INFO [a:b:c] Started service'',
               ''2024-01-15 10:30:00.123 INFO [app.py:42] Started service''] =
     Inl (ValueError (Unpack_mismatch 3))"
    using colon_count_unpack_ValueError[OF h1 two_colons_timestamp
        started_service_fromisoformat two_colons_match c2,
        of "[''2024-01-15 10:30:00.123 INFO [app.py:42] Started service'']"]
    by simp
  show ?thesis
    using h1 a b c0 c2 no_colon_match two_colons_match by simp
qed

text \<open>
  C10 (amended). \<open>delete_log\<close> deletes no file and writes none itself: it removes the
  attribute \<open>log_file_path\<close> of the instance (AttributeError when the instance has none),
  and the filesystem changes only by what the module logger writes for its records,
  \<open>Calling delete_log\<close> and, when the attribute was there, \<open>Log deleted.\<close> So every file
  that the logger does not write keeps its lines, and no instance has the attribute
  afterwards.
\<close>

theorem delete_log_frame:
  assumes "\<forall>msg fs. info msg fs p = fs p"
  shows "snd (snd (delete_log info self fs)) p = fs p \<and>
         log_file_path (fst (snd (delete_log info self fs))) = None \<and>
         fst (delete_log info self fs) =
           (if log_file_path self = None then Inl AttributeError else Inr ()) \<and>
         snd (snd (delete_log info self fs)) =
           (if log_file_path self = None then info ''Calling delete_log'' fs
            else info ''Log deleted.'' (info ''Calling delete_log'' fs))"
  using assms by (simp add: delete_log_def Let_def split: option.splits)

theorem delete_log_frame_witness:
  "(\<forall>msg fs. file_handler_info ''/tmp/reporting.log'' (\<lambda>m. m) msg fs ''/var/log/app.log'' =
      fs ''/var/log/app.log'') \<and>
   snd (snd (delete_log (file_handler_info ''/tmp/reporting.log'' (\<lambda>m. m))
               \<lparr>log_file_path = Some ''/var/log/app.log''\<rparr>
               [''/var/log/app.log'' \<mapsto>
                  [''2024-01-15 10:30:00.123 INFO [app.py:42] Started service'']]))
     ''/var/log/app.log'' =
     Some [''2024-01-15 10:30:00.123 INFO [app.py:42] Started service'']"
proof -
  have h: "\<forall>msg fs.
      file_handler_info ''/tmp/reporting.log'' (\<lambda>m. m) msg fs ''/var/log/app.log'' =
      fs ''/var/log/app.log''"
    by (simp add: file_handler_other_path)
  from delete_log_frame[of "file_handler_info ''/tmp/reporting.log'' (\<lambda>m. m)"
      "''/var/log/app.log''" "\<lparr>log_file_path = Some ''/var/log/app.log''\<rparr>"
      "[''/var/log/app.log'' \<mapsto>
          [''2024-01-15 10:30:00.123 INFO [app.py:42] Started service'']]"]
    h show ?thesis by simp
qed

text \<open>
  C10 as stated fails for the instance whose \<open>log_file_path\<close> is the file the module logger
  writes, \<open>reporting.log\<close> in the temporary directory: the two records of \<open>delete_log\<close> are
  appended to it.
\<close>

theorem delete_log_own_file_counterexample:
  "snd (snd (delete_log (file_handler_info ''/tmp/reporting.log'' (\<lambda>m. m))
               \<lparr>log_file_path = Some ''/tmp/reporting.log''\<rparr>
               [''/tmp/reporting.log'' \<mapsto>
                  [''2024-01-15 10:30:00.123 INFO [app.py:42] Started service'']]))
     ''/tmp/reporting.log'' =
     Some [''2024-01-15 10:30:00.123 INFO [app.py:42] Started service'',
           ''Calling delete_log'', ''Log deleted.'']"
  by (simp add: delete_log_def file_handler_info_def format_msg_def MAX_LENGTH_def strip_def
      strip_by_def isspace_def code_def)

end
